theory Spec2Isabelle
  imports Main "HOL-Library.Sublist"
begin

section \<open>The container image configuration (Dockerfile)\<close>

text \<open>
  The Dockerfile of the repository, instruction by instruction.  A \<open>FROM image AS name\<close>
  line opens a named stage; \<open>COPY --from=stage\<close> is kept apart from a \<open>COPY\<close> out of
  the build context; commands are argument vectors as they are written in the file
  (\<open>RUN npm install\<close> is the vector npm, install).
\<close>

datatype instr =
    FROM string string
  | WORKDIR string
  | COPY string string
  | COPY_FROM string string string
  | RUN "string list"
  | EXPOSE nat
  | CMD "string list"

definition dockerfile :: "instr list" where
  "dockerfile =
    [ FROM ''node:20-alpine'' ''base'',
      WORKDIR ''/app'',
      FROM ''base'' ''deps'',
      COPY ''package.json'' ''./'',
      RUN [''npm'', ''install''],
      FROM ''deps'' ''dev'',
      COPY ''.'' ''.'',
      EXPOSE 5173,
      CMD [''npm'', ''run'', ''dev''],
      FROM ''deps'' ''build'',
      COPY ''.'' ''.'',
      RUN [''npm'', ''run'', ''build''],
      FROM ''nginx:alpine'' ''prod'',
      COPY ''docker/nginx.conf'' ''/etc/nginx/conf.d/default.conf'',
      COPY_FROM ''build'' ''/app/dist'' ''/usr/share/nginx/html'',
      EXPOSE 80,
      CMD [''nginx'', ''-g'', ''daemon off;''] ]"

record stage =
  stage_name :: string
  parent :: string
  instructions :: "instr list"

text \<open>
  Splitting the file into its stages: every \<open>FROM\<close> starts a stage that owns the
  instructions up to the next \<open>FROM\<close>.  \<open>collect\<close> walks the file from the end and
  returns the instructions not yet owned by a stage together with the stages found.
\<close>

fun collect :: "instr list \<Rightarrow> instr list \<times> stage list" where
  "collect [] = ([], [])"
| "collect (i # rest) =
     (case collect rest of (pending, found) \<Rightarrow>
        (case i of
           FROM img nm \<Rightarrow> ([], \<lparr>stage_name = nm, parent = img, instructions = pending\<rparr> # found)
         | _ \<Rightarrow> (i # pending, found)))"

definition stages_of :: "instr list \<Rightarrow> stage list" where
  "stages_of f = snd (collect f)"

definition find_stage :: "instr list \<Rightarrow> string \<Rightarrow> stage option" where
  "find_stage f nm = find (\<lambda>s. stage_name s = nm) (stages_of f)"

definition exposed :: "stage \<Rightarrow> nat list" where
  "exposed s = [p. EXPOSE p \<leftarrow> instructions s]"

definition runs :: "stage \<Rightarrow> string list list" where
  "runs s = [c. RUN c \<leftarrow> instructions s]"

definition start_cmd :: "stage \<Rightarrow> string list list" where
  "start_cmd s = [c. CMD c \<leftarrow> instructions s]"

definition context_copies :: "stage \<Rightarrow> (string \<times> string) list" where
  "context_copies s = [(src, dst). COPY src dst \<leftarrow> instructions s]"

definition stage_copies :: "stage \<Rightarrow> (string \<times> string \<times> string) list" where
  "stage_copies s = [(st, src, dst). COPY_FROM st src dst \<leftarrow> instructions s]"

section \<open>The build configuration (vite.config.js)\<close>

record watch_options =
  usePolling :: bool

record server_options =
  host :: string
  port :: nat
  strictPort :: bool
  watch :: watch_options

record vite_options =
  base :: string
  plugins :: "string list"
  server :: server_options

definition vite_config :: vite_options where
  "vite_config =
    \<lparr> base = ''/simple-react-app-vite-docker/'',
      plugins = [''react''],
      server = \<lparr> host = ''0.0.0.0'', port = 5173, strictPort = True,
                 watch = \<lparr> usePolling = True \<rparr> \<rparr> \<rparr>"

section \<open>The build output (dist)\<close>

text \<open>
  The entry document is kept as its sequence of nodes, so that the references it makes
  are data and not substrings; a file of the output is either such a document or raw
  bytes.  An artifact is the entry document together with the other emitted files, each
  under its path relative to the output directory (\<open>assets/index-1a2b3c4d.js\<close>).
\<close>

datatype node = Markup string | ScriptSrc string | LinkHref string

type_synonym document = "node list"

datatype content = Html document | Bytes string

type_synonym fs = "(string \<times> content) list"

record artifact =
  entry :: document
  files :: fs

definition refs :: "document \<Rightarrow> string list" where
  "refs d = concat (map (\<lambda>n. case n of Markup _ \<Rightarrow> [] | ScriptSrc u \<Rightarrow> [u] | LinkHref u \<Rightarrow> [u]) d)"

definition dist_files :: "artifact \<Rightarrow> fs" where
  "dist_files art = (''index.html'', Html (entry art)) # files art"

definition under_assets :: "artifact \<Rightarrow> bool" where
  \<comment> \<open>every emitted file lies below \<open>assets/\<close>, as in the FAQ's \<open>/assets/index-*.js\<close>\<close>
  "under_assets art = list_all (\<lambda>(r, c). prefix ''assets/'' r) (files art)"

definition flat_assets :: "artifact \<Rightarrow> bool" where
  \<comment> \<open>every emitted file lies directly in \<open>assets/\<close>\<close>
  "flat_assets art =
     list_all (\<lambda>(r, c). prefix ''assets/'' r \<and> CHR ''/'' \<notin> set (drop 7 r)) (files art)"

definition valid_mount :: "string \<Rightarrow> bool" where
  \<comment> \<open>a mount path starts and ends with a slash\<close>
  "valid_mount p = (p \<noteq> [] \<and> hd p = CHR ''/'' \<and> last p = CHR ''/'')"

section \<open>The production image's file tree\<close>

text \<open>
  The build stage works in /app (the \<open>WORKDIR\<close> of the base stage, inherited through
  deps) and \<open>npm run build\<close> writes the output to dist there.  \<open>COPY --from\<close> of a
  directory copies what is below the source directory to below the destination.  In an
  association list the first entry for a path is the file, so the copies of a stage are
  laid down last first.  The files that the nginx base image ships are not part of the
  repository and are not in the tree.
\<close>

definition build_stage_fs :: "artifact \<Rightarrow> fs" where
  "build_stage_fs art = map (\<lambda>(r, c). (''/app/dist/'' @ r, c)) (dist_files art)"

definition copy_tree :: "string \<Rightarrow> string \<Rightarrow> fs \<Rightarrow> fs" where
  "copy_tree src dst t =
     map (\<lambda>(p, c). (dst @ drop (length src) p, c))
         (filter (\<lambda>(p, c). prefix (src @ ''/'') p) t)"

definition image_fs :: "instr list \<Rightarrow> string \<Rightarrow> (string \<Rightarrow> fs) \<Rightarrow> fs" where
  "image_fs f nm built =
     (case find_stage f nm of
        None \<Rightarrow> []
      | Some s \<Rightarrow> concat (map (\<lambda>(st, src, dst). copy_tree src dst (built st))
                              (rev (stage_copies s))))"

definition prod_fs :: "artifact \<Rightarrow> fs" where
  "prod_fs art =
     image_fs dockerfile ''prod'' (\<lambda>st. if st = ''build'' then build_stage_fs art else [])"

section \<open>The static server (docker/nginx.conf) and the compose services\<close>

text \<open>
  The server block has one location, \<open>/\<close>, which matches every request path; its
  \<open>try_files\<close> directive is the field of that name.
\<close>

record nginx_server =
  listen :: nat
  server_name :: string
  root :: string
  index :: string
  try_files :: "string list"

definition nginx_conf :: nginx_server where
  "nginx_conf =
    \<lparr> listen = 80, server_name = ''localhost'', root = ''/usr/share/nginx/html'',
      index = ''index.html'', try_files = [''$uri'', ''/index.html''] \<rparr>"

record service =
  container_name :: string
  target :: string
  profiles :: "string list"
  ports :: "(nat \<times> nat) list"
  volumes :: "string list"
  environment :: "string list"

definition frontend_dev :: service where
  "frontend_dev =
    \<lparr> container_name = ''vite-react-dev'', target = ''dev'', profiles = [''dev''],
      ports = [(5173, 5173)], volumes = [''.:/app'', ''/app/node_modules''],
      environment = [''CHOKIDAR_USEPOLLING=true''] \<rparr>"

definition frontend_prod :: service where
  "frontend_prod =
    \<lparr> container_name = ''vite-react-prod'', target = ''prod'', profiles = [''prod''],
      ports = [(8080, 80)], volumes = [], environment = [] \<rparr>"

record response =
  status :: nat
  body :: content

text \<open>
  \<open>try_files\<close>: every argument but the last is a file name under the root, after
  \<open>$uri\<close> is replaced by the request path; the first one that is a regular file is
  served.  An argument without a trailing slash never matches a directory, so with
  \<open>$uri\<close> alone the \<open>index\<close> directive is never consulted.  The last argument is not
  tested: it is the path of an internal redirect, which goes through the location
  again.  The server gives up with status 500 after ten internal redirects.
\<close>

definition subst_uri :: "string \<Rightarrow> string \<Rightarrow> string" where
  "subst_uri uri arg = (if arg = ''$uri'' then uri else arg)"

fun try_args :: "fs \<Rightarrow> string \<Rightarrow> string \<Rightarrow> string list \<Rightarrow> response + string" where
  "try_args t rt uri [] = Inl \<lparr>status = 500, body = Bytes []\<rparr>"
| "try_args t rt uri [fallback] = Inr (subst_uri uri fallback)"
| "try_args t rt uri (a # rest) =
     (case map_of t (rt @ subst_uri uri a) of
        Some c \<Rightarrow> Inl \<lparr>status = 200, body = c\<rparr>
      | None \<Rightarrow> try_args t rt uri rest)"

fun locate :: "nat \<Rightarrow> nginx_server \<Rightarrow> fs \<Rightarrow> string \<Rightarrow> response" where
  "locate 0 srv t uri = \<lparr>status = 500, body = Bytes []\<rparr>"
| "locate (Suc n) srv t uri =
     (case try_args t (root srv) uri (try_files srv) of
        Inl r \<Rightarrow> r
      | Inr uri' \<Rightarrow> locate n srv t uri')"

definition nginx_serve :: "nginx_server \<Rightarrow> fs \<Rightarrow> string \<Rightarrow> response" where
  "nginx_serve srv t uri = locate 11 srv t uri"

text \<open>
  Two sample outputs: the one of the shipped configuration, and the one of the
  specification's scenario with the prefix /my-app/.
\<close>

definition shipped_artifact :: artifact where
  "shipped_artifact =
    \<lparr> entry = [Markup ''<div id=root></div>'',
               ScriptSrc ''/simple-react-app-vite-docker/assets/index-1a2b3c4d.js''],
      files = [(''assets/index-1a2b3c4d.js'', Bytes ''createRoot(root).render(App)'')] \<rparr>"

definition my_app_artifact :: artifact where
  "my_app_artifact =
    \<lparr> entry = [Markup ''<div id=root></div>'',
               ScriptSrc ''/my-app/assets/app-1a2b3c4d.js''],
      files = [(''assets/app-1a2b3c4d.js'', Bytes ''createRoot(root).render(App)'')] \<rparr>"

section \<open>Building the image\<close>

text \<open>
  What the commands of the Dockerfile need from the outside: \<open>npm ci\<close> installs only
  with a lockfile (FAQ, item 2), \<open>npm install\<close> does not look for one, and both need
  the package registry; \<open>npm run build\<close> needs sources that build.
\<close>

record build_env =
  lockfile :: bool
  registry_up :: bool
  sources_ok :: bool

definition cmd_ok :: "build_env \<Rightarrow> string list \<Rightarrow> bool" where
  "cmd_ok env c =
     (if c = [''npm'', ''ci''] then lockfile env \<and> registry_up env
      else if c = [''npm'', ''install''] then registry_up env
      else if c = [''npm'', ''run'', ''build''] then sources_ok env
      else True)"

text \<open>
  A stage is built when the stage it starts from is built (an image that is no stage of
  the file comes from outside), every \<open>RUN\<close> succeeds and every stage it copies from
  is built.  Stages are taken in the order of the file; \<open>docker_build\<close> returns the
  names of those that were built.  The transcript of a stage is what the build prints
  for it: the commands it ran, up to and including the first that failed.
\<close>

definition external :: "instr list \<Rightarrow> string \<Rightarrow> bool" where
  "external f img = (img \<notin> set (map stage_name (stages_of f)))"

fun instr_ok :: "build_env \<Rightarrow> string list \<Rightarrow> instr \<Rightarrow> bool" where
  "instr_ok env built (RUN c) = cmd_ok env c"
| "instr_ok env built (COPY_FROM st src dst) = (st \<in> set built)"
| "instr_ok env built _ = True"

definition stage_ok :: "build_env \<Rightarrow> instr list \<Rightarrow> string list \<Rightarrow> stage \<Rightarrow> bool" where
  "stage_ok env f built s =
     ((external f (parent s) \<or> parent s \<in> set built) \<and> list_all (instr_ok env built) (instructions s))"

definition docker_build :: "build_env \<Rightarrow> instr list \<Rightarrow> string list" where
  "docker_build env f =
     foldl (\<lambda>built s. if stage_ok env f built s then built @ [stage_name s] else built)
       [] (stages_of f)"

definition transcript :: "build_env \<Rightarrow> stage \<Rightarrow> string list list" where
  "transcript env s =
     takeWhile (cmd_ok env) (runs s) @ take 1 (dropWhile (cmd_ok env) (runs s))"

definition no_lockfile_env :: build_env where
  "no_lockfile_env = \<lparr> lockfile = False, registry_up = True, sources_ok = True \<rparr>"

section \<open>The Pages workflow (.github/workflows/static.yml)\<close>

text \<open>
  Modelled from the spec: the workflow file .github/workflows/static.yml and the
  hosting platform's upload and activation.  The steps and their order are those the
  FAQ lists for the file; what the upload and the deployment do to the hosting state
  follows the specification of the publish adapter: the tree is uploaded as one
  bundle, and activation makes a completely uploaded bundle the live one.  A step
  that fails ends the run; an upload that fails after \<open>k\<close> files leaves a partial
  bundle behind.
\<close>

datatype step =
    Checkout
  | SetupNode
  | RunCmd "string list"
  | ConfigurePages
  | UploadPagesArtifact string
  | DeployPages

definition static_yml :: "step list" where
  \<comment> \<open>Modelled from the spec: the steps of static.yml, as the FAQ lists them\<close>
  "static_yml =
    [ Checkout,
      SetupNode,
      RunCmd [''npm'', ''install''],
      RunCmd [''npm'', ''run'', ''build''],
      ConfigurePages,
      UploadPagesArtifact ''dist'',
      DeployPages ]"

datatype outcome = Succeeds | Fails nat

datatype upload = Nothing | Partial fs | Complete fs

record pages_state =
  workspace :: "(string \<times> fs) list"
  staged :: upload
  live :: "fs option"

fun exec_step :: "(step \<Rightarrow> outcome) \<Rightarrow> artifact \<Rightarrow> step \<Rightarrow> pages_state \<Rightarrow> pages_state \<times> bool" where
  \<comment> \<open>Modelled from the spec: the effect of each step on the runner and on the host\<close>
  "exec_step fate art (RunCmd c) st =
     (case fate (RunCmd c) of
        Fails k \<Rightarrow> (st, False)
      | Succeeds \<Rightarrow>
          (if c = [''npm'', ''run'', ''build'']
           then st\<lparr>workspace := (''dist'', dist_files art) # workspace st\<rparr>
           else st, True))"
| "exec_step fate art (UploadPagesArtifact d) st =
     (case map_of (workspace st) d of
        None \<Rightarrow> (st, False)
      | Some t \<Rightarrow>
          (case fate (UploadPagesArtifact d) of
             Succeeds \<Rightarrow> (st\<lparr>staged := Complete t\<rparr>, True)
           | Fails k \<Rightarrow> (st\<lparr>staged := Partial (take k t)\<rparr>, False)))"
| "exec_step fate art DeployPages st =
     (case fate DeployPages of
        Fails k \<Rightarrow> (st, False)
      | Succeeds \<Rightarrow>
          (case staged st of
             Complete t \<Rightarrow> (st\<lparr>live := Some t\<rparr>, True)
           | _ \<Rightarrow> (st, False)))"
| "exec_step fate art s st =
     (case fate s of Fails k \<Rightarrow> (st, False) | Succeeds \<Rightarrow> (st, True))"

fun run_steps :: "(step \<Rightarrow> outcome) \<Rightarrow> artifact \<Rightarrow> step list \<Rightarrow> pages_state \<Rightarrow> pages_state \<times> bool" where
  "run_steps fate art [] st = (st, True)"
| "run_steps fate art (s # rest) st =
     (case exec_step fate art s st of
        (st', True) \<Rightarrow> run_steps fate art rest st'
      | (st', False) \<Rightarrow> (st', False))"

definition fresh_run :: "fs option \<Rightarrow> pages_state" where
  \<comment> \<open>a new runner: empty workspace, nothing uploaded, the previous deployment live\<close>
  "fresh_run prev = \<lparr> workspace = [], staged = Nothing, live = prev \<rparr>"

definition run_workflow :: "(step \<Rightarrow> outcome) \<Rightarrow> artifact \<Rightarrow> fs option \<Rightarrow> pages_state \<times> bool" where
  "run_workflow fate art prev = run_steps fate art static_yml (fresh_run prev)"

definition upload_breaks :: "nat \<Rightarrow> step \<Rightarrow> outcome" where
  \<comment> \<open>every step succeeds but the upload, which fails after \<open>k\<close> files\<close>
  "upload_breaks k s = (case s of UploadPagesArtifact d \<Rightarrow> Fails k | _ \<Rightarrow> Succeeds)"

section \<open>The production build\<close>













section \<open>Stages of the image\<close>

lemma stages_of_dockerfile:
  "stages_of dockerfile =
    [ \<lparr>stage_name = ''base'', parent = ''node:20-alpine'', instructions = [WORKDIR ''/app'']\<rparr>,
      \<lparr>stage_name = ''deps'', parent = ''base'',
        instructions = [COPY ''package.json'' ''./'', RUN [''npm'', ''install'']]\<rparr>,
      \<lparr>stage_name = ''dev'', parent = ''deps'',
        instructions = [COPY ''.'' ''.'', EXPOSE 5173, CMD [''npm'', ''run'', ''dev'']]\<rparr>,
      \<lparr>stage_name = ''build'', parent = ''deps'',
        instructions = [COPY ''.'' ''.'', RUN [''npm'', ''run'', ''build'']]\<rparr>,
      \<lparr>stage_name = ''prod'', parent = ''nginx:alpine'',
        instructions = [COPY ''docker/nginx.conf'' ''/etc/nginx/conf.d/default.conf'',
                COPY_FROM ''build'' ''/app/dist'' ''/usr/share/nginx/html'',
                EXPOSE 80,
                CMD [''nginx'', ''-g'', ''daemon off;'']]\<rparr> ]"
  by (simp add: stages_of_def dockerfile_def)

text \<open>
  Claim C7, as stated: the image configuration has exactly three addressable stages, and
  the production stage is the one that runs the build.  The file names five stages, and
  the production stage runs no command at build time: the build runs in a stage of its
  own.
\<close>

theorem C7_three_stages_counterexample:
  "\<not> (length (stages_of dockerfile) = 3) \<and>
   map stage_name (stages_of dockerfile) = [''base'', ''deps'', ''dev'', ''build'', ''prod''] \<and>
   map_option runs (find_stage dockerfile ''prod'') = Some []"
  by (simp add: find_stage_def stages_of_dockerfile runs_def)

text \<open>
  Claim C7, amended: the configuration defines five addressable stages, base, deps, dev,
  build and prod.  deps (on base) copies package.json and runs the dependency install
  and nothing else; dev (on deps) exposes port 5173 and starts \<open>npm run dev\<close>; build
  (on deps) runs \<open>npm run build\<close>; prod starts from the nginx image, takes from the
  build stage only /app/dist (into /usr/share/nginx/html), takes the server
  configuration from the build context, exposes port 80 and starts nginx.
\<close>

theorem C7_five_stages:
  "map stage_name (stages_of dockerfile) = [''base'', ''deps'', ''dev'', ''build'', ''prod''] \<and>
   map_option (\<lambda>s. (parent s, context_copies s, runs s, exposed s, start_cmd s))
       (find_stage dockerfile ''deps'')
     = Some (''base'', [(''package.json'', ''./'')], [[''npm'', ''install'']], [], []) \<and>
   map_option (\<lambda>s. (parent s, runs s, exposed s, start_cmd s))
       (find_stage dockerfile ''dev'')
     = Some (''deps'', [], [5173], [[''npm'', ''run'', ''dev'']]) \<and>
   map_option (\<lambda>s. (parent s, runs s, exposed s, start_cmd s))
       (find_stage dockerfile ''build'')
     = Some (''deps'', [[''npm'', ''run'', ''build'']], [], []) \<and>
   map_option (\<lambda>s. (parent s, stage_copies s, context_copies s, runs s, exposed s, start_cmd s))
       (find_stage dockerfile ''prod'')
     = Some (''nginx:alpine'',
             [(''build'', ''/app/dist'', ''/usr/share/nginx/html'')],
             [(''docker/nginx.conf'', ''/etc/nginx/conf.d/default.conf'')],
             [], [80], [[''nginx'', ''-g'', ''daemon off;'']])"
  by (simp add: find_stage_def stages_of_dockerfile runs_def exposed_def start_cmd_def
      context_copies_def stage_copies_def)

section \<open>What the production container serves\<close>

lemma copy_tree_below:
  "copy_tree src dst (map (\<lambda>(r, c). (src @ ''/'' @ r, c)) xs)
     = map (\<lambda>(r, c). (dst @ ''/'' @ r, c)) xs"
  by (induction xs) (auto simp: copy_tree_def)

lemma prod_fs_eq:
  "prod_fs art = map (\<lambda>(r, c). (''/usr/share/nginx/html/'' @ r, c)) (dist_files art)"
proof -
  have "build_stage_fs art = map (\<lambda>(r, c). (''/app/dist'' @ ''/'' @ r, c)) (dist_files art)"
    by (simp add: build_stage_fs_def)
  then have "copy_tree ''/app/dist'' ''/usr/share/nginx/html'' (build_stage_fs art)
      = map (\<lambda>(r, c). (''/usr/share/nginx/html'' @ ''/'' @ r, c)) (dist_files art)"
    by (simp only: copy_tree_below)
  then show ?thesis
    by (simp add: prod_fs_def image_fs_def find_stage_def stages_of_dockerfile stage_copies_def)
qed

lemma prod_fs_entry:
  "map_of (prod_fs art) ''/usr/share/nginx/html/index.html'' = Some (Html (entry art))"
  by (simp add: prod_fs_eq dist_files_def)

lemma fallback_to_entry:
  assumes "map_of (prod_fs art) (''/usr/share/nginx/html'' @ uri) = None"
  shows "nginx_serve nginx_conf (prod_fs art) uri = \<lparr>status = 200, body = Html (entry art)\<rparr>"
proof -
  have first: "try_args (prod_fs art) ''/usr/share/nginx/html'' uri [''$uri'', ''/index.html'']
      = Inr ''/index.html''"
    using assms by (simp add: subst_uri_def)
  have again: "try_args (prod_fs art) ''/usr/share/nginx/html'' ''/index.html''
      [''$uri'', ''/index.html''] = Inl \<lparr>status = 200, body = Html (entry art)\<rparr>"
    using prod_fs_entry [of art] by (simp add: subst_uri_def)
  have "locate (Suc (Suc n)) nginx_conf (prod_fs art) uri
      = \<lparr>status = 200, body = Html (entry art)\<rparr>" for n
    by (simp add: nginx_conf_def first again del: try_args.simps)
  then show ?thesis
    by (simp add: nginx_serve_def eval_nat_numeral del: locate.simps)
qed


lemma prod_fs_paths:
  "fst ` set (prod_fs art)
     = (\<lambda>r. ''/usr/share/nginx/html/'' @ r) ` insert ''index.html'' (fst ` set (files art))"
  by (force simp: prod_fs_eq dist_files_def)

lemma mount_slashes:
  assumes "valid_mount p" and "p \<noteq> ''/''"
  shows "2 \<le> count_list p (CHR ''/'')"
proof (cases p)
  case Nil
  with assms show ?thesis by (simp add: valid_mount_def)
next
  case (Cons a t)
  with assms have a: "a = CHR ''/''" and t: "t \<noteq> []" and l: "last t = CHR ''/''"
    by (auto simp: valid_mount_def split: if_splits)
  from t l have "CHR ''/'' \<in> set t"
    using last_in_set by metis
  then have "count_list t (CHR ''/'') \<noteq> 0"
    by (simp add: count_list_0_iff)
  with a Cons show ?thesis by simp
qed

lemma flat_slashes:
  assumes "prefix ''assets/'' r" and "CHR ''/'' \<notin> set (drop 7 r)"
  shows "count_list r (CHR ''/'') = 1"
proof -
  from assms(1) obtain g where r: "r = ''assets/'' @ g"
    by (auto simp: prefix_def)
  with assms(2) have "count_list g (CHR ''/'') = 0"
    by (simp add: count_list_0_iff)
  with r show ?thesis by simp
qed

text \<open>
  Claim C4: a request path that is not a file of the published tree is answered with
  the entry document and status 200, not 404.
\<close>

theorem C4_spa_fallback:
  assumes "map_of (prod_fs art) (root nginx_conf @ uri) = None"
  shows "nginx_serve nginx_conf (prod_fs art) uri = \<lparr>status = 200, body = Html (entry art)\<rparr>
       \<and> status (nginx_serve nginx_conf (prod_fs art) uri) \<noteq> 404"
proof -
  from assms have "map_of (prod_fs art) (''/usr/share/nginx/html'' @ uri) = None"
    by (simp add: nginx_conf_def)
  then show ?thesis
    by (simp add: fallback_to_entry)
qed

theorem C4_spa_fallback_witness:
  "map_of (prod_fs shipped_artifact) (root nginx_conf @ ''/about/team'') = None
   \<and> nginx_serve nginx_conf (prod_fs shipped_artifact) ''/about/team''
       = \<lparr>status = 200, body = Html (entry shipped_artifact)\<rparr>"
proof -
  have h: "map_of (prod_fs shipped_artifact) (root nginx_conf @ ''/about/team'') = None"
    by (simp add: prod_fs_eq dist_files_def shipped_artifact_def nginx_conf_def)
  from C4_spa_fallback [OF h] h show ?thesis by simp
qed

text \<open>
  Claim C3: the shipped build configuration carries the prefix
  /simple-react-app-vite-docker/, while the production service (compose target prod,
  host port 8080 on the server's port 80) serves the copied output directly under the
  server root, where a request for / gets the entry document.  Whatever path starts
  with the configured prefix then names no file under the server root: a request made
  from a reference with the prefix baked in is not answered with the asset, it falls
  through to the entry document.
\<close>

theorem C3_container_mismatch:
  assumes "under_assets art" and "prefix (base vite_config) u"
  shows "base vite_config = ''/simple-react-app-vite-docker/''
       \<and> target frontend_prod = ''prod''
       \<and> ports frontend_prod = [(8080, listen nginx_conf)]
       \<and> map_option stage_copies (find_stage dockerfile ''prod'')
           = Some [(''build'', ''/app/dist'', root nginx_conf)]
       \<and> nginx_serve nginx_conf (prod_fs art) ''/''
           = \<lparr>status = 200, body = Html (entry art)\<rparr>
       \<and> map_of (prod_fs art) (root nginx_conf @ u) = None
       \<and> nginx_serve nginx_conf (prod_fs art) u = \<lparr>status = 200, body = Html (entry art)\<rparr>"
proof -
  from assms(2) obtain rest where u: "u = ''/simple-react-app-vite-docker/'' @ rest"
    by (auto simp: prefix_def vite_config_def)
  have files: "prefix ''assets/'' r" if "r \<in> fst ` set (files art)" for r
    using assms(1) that by (auto simp: under_assets_def list_all_iff)
  have "''/usr/share/nginx/html'' @ u \<notin> fst ` set (prod_fs art)"
  proof
    assume "''/usr/share/nginx/html'' @ u \<in> fst ` set (prod_fs art)"
    then obtain r where r: "r = ''index.html'' \<or> r \<in> fst ` set (files art)"
      and eq: "''/usr/share/nginx/html'' @ u = ''/usr/share/nginx/html/'' @ r"
      unfolding prod_fs_paths by blast
    from eq u have "r = ''simple-react-app-vite-docker/'' @ rest" by simp
    with r files show False by (auto simp: prefix_def)
  qed
  then have none: "map_of (prod_fs art) (''/usr/share/nginx/html'' @ u) = None"
    by (simp add: map_of_eq_None_iff)
  have "''/usr/share/nginx/html'' @ ''/'' \<notin> fst ` set (prod_fs art)"
  proof
    assume "''/usr/share/nginx/html'' @ ''/'' \<in> fst ` set (prod_fs art)"
    then obtain r where r: "r = ''index.html'' \<or> r \<in> fst ` set (files art)"
      and eq: "''/usr/share/nginx/html'' @ ''/'' = ''/usr/share/nginx/html/'' @ r"
      unfolding prod_fs_paths by blast
    from eq have "r = []" by simp
    with r files show False by (auto simp: prefix_def)
  qed
  then have slash: "map_of (prod_fs art) (''/usr/share/nginx/html'' @ ''/'') = None"
    by (simp add: map_of_eq_None_iff)
  have copies: "map_option stage_copies (find_stage dockerfile ''prod'')
      = Some [(''build'', ''/app/dist'', root nginx_conf)]"
    by (simp add: find_stage_def stages_of_dockerfile stage_copies_def nginx_conf_def)
  have conf: "base vite_config = ''/simple-react-app-vite-docker/''"
    "target frontend_prod = ''prod''" "ports frontend_prod = [(8080, listen nginx_conf)]"
    by (simp_all add: vite_config_def frontend_prod_def nginx_conf_def)
  have rt: "root nginx_conf = ''/usr/share/nginx/html''"
    by (simp add: nginx_conf_def)
  show ?thesis
    unfolding rt using conf copies none fallback_to_entry [OF none] fallback_to_entry [OF slash]
    by (simp only: rt simp_thms)
qed

theorem C3_container_mismatch_witness:
  "under_assets shipped_artifact
   \<and> prefix (base vite_config) ''/simple-react-app-vite-docker/assets/index-1a2b3c4d.js''
   \<and> ''/simple-react-app-vite-docker/assets/index-1a2b3c4d.js''
        \<in> set (refs (entry shipped_artifact))
   \<and> map_of (prod_fs shipped_artifact)
        (root nginx_conf @ ''/simple-react-app-vite-docker/assets/index-1a2b3c4d.js'') = None
   \<and> nginx_serve nginx_conf (prod_fs shipped_artifact)
        ''/simple-react-app-vite-docker/assets/index-1a2b3c4d.js''
        = \<lparr>status = 200, body = Html (entry shipped_artifact)\<rparr>"
proof -
  have a: "under_assets shipped_artifact"
    by (simp add: under_assets_def shipped_artifact_def)
  have b: "prefix (base vite_config) ''/simple-react-app-vite-docker/assets/index-1a2b3c4d.js''"
    by (simp add: vite_config_def)
  have c: "''/simple-react-app-vite-docker/assets/index-1a2b3c4d.js''
        \<in> set (refs (entry shipped_artifact))"
    by (simp add: refs_def shipped_artifact_def)
  from C3_container_mismatch [OF a b] a b c show ?thesis by simp
qed


text \<open>
  Claim C2, as stated: an artifact built with the prefix /my-app/ and served at the
  site root answers the request for /my-app/assets/app-<hash>.js with 404.  Served at
  the root by the repository's own server, the request does not get a 404: the path is
  no file, so the fallback answers it with the entry document and status 200.
\<close>

theorem C2_not_found_counterexample:
  "''/my-app/assets/app-1a2b3c4d.js'' \<in> set (refs (entry my_app_artifact))
   \<and> \<not> (status (nginx_serve nginx_conf (prod_fs my_app_artifact)
                 ''/my-app/assets/app-1a2b3c4d.js'') = 404)
   \<and> nginx_serve nginx_conf (prod_fs my_app_artifact) ''/my-app/assets/app-1a2b3c4d.js''
       = \<lparr>status = 200, body = Html (entry my_app_artifact)\<rparr>"
proof -
  have "map_of (prod_fs my_app_artifact)
      (''/usr/share/nginx/html'' @ ''/my-app/assets/app-1a2b3c4d.js'') = None"
    by (simp add: prod_fs_eq dist_files_def my_app_artifact_def)
  from fallback_to_entry [OF this] show ?thesis
    by (simp add: refs_def my_app_artifact_def)
qed

text \<open>
  Claim C2, amended: when an artifact is built with a prefix other than the root and is
  served at the site root, the reference to each emitted file (the prefix followed by
  the file's path in the output) names no file of the served tree; the repository's
  server answers such a request with the entry document and status 200 through its
  fallback, so the asset is not what comes back.
\<close>

theorem C2_baked_prefix_at_root:
  assumes "valid_mount p" and "p \<noteq> ''/''" and "flat_assets art"
    and "(r, c) \<in> set (files art)"
  shows "map_of (prod_fs art) (root nginx_conf @ p @ r) = None
       \<and> nginx_serve nginx_conf (prod_fs art) (p @ r)
           = \<lparr>status = 200, body = Html (entry art)\<rparr>"
proof -
  have one: "count_list q (CHR ''/'') = 1" if "q \<in> fst ` set (files art)" for q
  proof -
    from that obtain b where "(q, b) \<in> set (files art)" by auto
    with assms(3) have "prefix ''assets/'' q" and "CHR ''/'' \<notin> set (drop 7 q)"
      by (auto simp: flat_assets_def list_all_iff)
    then show ?thesis by (rule flat_slashes)
  qed
  from assms(4) have r: "count_list r (CHR ''/'') = 1"
    by (intro one) force
  have "''/usr/share/nginx/html'' @ p @ r \<notin> fst ` set (prod_fs art)"
  proof
    assume "''/usr/share/nginx/html'' @ p @ r \<in> fst ` set (prod_fs art)"
    then obtain q where q: "q = ''index.html'' \<or> q \<in> fst ` set (files art)"
      and eq: "''/usr/share/nginx/html'' @ p @ r = ''/usr/share/nginx/html/'' @ q"
      unfolding prod_fs_paths by blast
    from eq have "p @ r = ''/'' @ q" by simp
    then have "count_list (p @ r) (CHR ''/'') = count_list (''/'' @ q) (CHR ''/'')"
      by (rule arg_cong)
    then have "count_list p (CHR ''/'') + 1 = 1 + count_list q (CHR ''/'')"
      using r by simp
    moreover have "count_list q (CHR ''/'') \<le> 1"
    proof (cases "q = ''index.html''")
      case True
      then show ?thesis by simp
    next
      case False
      with q have "q \<in> fst ` set (files art)" by simp
      then show ?thesis by (simp add: one)
    qed
    moreover note mount_slashes [OF assms(1,2)]
    ultimately show False by simp
  qed
  then have none: "map_of (prod_fs art) (''/usr/share/nginx/html'' @ p @ r) = None"
    by (simp add: map_of_eq_None_iff)
  have rt: "root nginx_conf = ''/usr/share/nginx/html''"
    by (simp add: nginx_conf_def)
  show ?thesis
    unfolding rt using none fallback_to_entry [OF none] by (simp only: simp_thms)
qed

theorem C2_baked_prefix_at_root_witness:
  "valid_mount (base vite_config) \<and> base vite_config \<noteq> ''/'' \<and> flat_assets shipped_artifact
   \<and> (''assets/index-1a2b3c4d.js'', Bytes ''createRoot(root).render(App)'')
        \<in> set (files shipped_artifact)
   \<and> base vite_config @ ''assets/index-1a2b3c4d.js'' \<in> set (refs (entry shipped_artifact))
   \<and> map_of (prod_fs shipped_artifact)
        (root nginx_conf @ base vite_config @ ''assets/index-1a2b3c4d.js'') = None
   \<and> nginx_serve nginx_conf (prod_fs shipped_artifact)
        (base vite_config @ ''assets/index-1a2b3c4d.js'')
        = \<lparr>status = 200, body = Html (entry shipped_artifact)\<rparr>"
proof -
  have a: "valid_mount (base vite_config)" and b: "base vite_config \<noteq> ''/''"
    by (simp_all add: valid_mount_def vite_config_def)
  have c: "flat_assets shipped_artifact"
    by (simp add: flat_assets_def shipped_artifact_def)
  have d: "(''assets/index-1a2b3c4d.js'', Bytes ''createRoot(root).render(App)'')
        \<in> set (files shipped_artifact)"
    by (simp add: shipped_artifact_def)
  have e: "base vite_config @ ''assets/index-1a2b3c4d.js'' \<in> set (refs (entry shipped_artifact))"
    by (simp add: refs_def shipped_artifact_def vite_config_def)
  from C2_baked_prefix_at_root [OF a b c d] a b c d e show ?thesis
    by (simp only: simp_thms)
qed


section \<open>Dependency installation\<close>

lemma deps_stage:
  "find_stage dockerfile ''deps''
     = Some \<lparr>stage_name = ''deps'', parent = ''base'',
              instructions = [COPY ''package.json'' ''./'', RUN [''npm'', ''install'']]\<rparr>"
  by (simp add: find_stage_def stages_of_dockerfile)

lemma docker_build_dockerfile:
  "docker_build env dockerfile =
     (if registry_up env
      then (if sources_ok env then [''base'', ''deps'', ''dev'', ''build'', ''prod'']
            else [''base'', ''deps'', ''dev''])
      else [''base''])"
  by (simp add: docker_build_def stages_of_dockerfile stage_ok_def external_def cmd_ok_def)

text \<open>
  Claim C8, as stated: when the non-reproducible install is used because there is no
  lockfile, the switch of strategy is logged.  Without a lockfile the dependency stage
  runs \<open>npm install\<close> and is built, and what the build prints for the stage is that one
  command, the same as with a lockfile: no line records a switch.
\<close>

theorem C8_silent_install_counterexample:
  "\<not> lockfile no_lockfile_env
   \<and> ''deps'' \<in> set (docker_build no_lockfile_env dockerfile)
   \<and> map_option (transcript no_lockfile_env) (find_stage dockerfile ''deps'')
       = Some [[''npm'', ''install'']]
   \<and> map_option (transcript (no_lockfile_env\<lparr>lockfile := True\<rparr>)) (find_stage dockerfile ''deps'')
       = map_option (transcript no_lockfile_env) (find_stage dockerfile ''deps'')"
  by (simp add: docker_build_dockerfile deps_stage transcript_def runs_def cmd_ok_def
      no_lockfile_env_def)

text \<open>
  Claim C8, amended: the dependency stage runs \<open>npm install\<close> and nothing else,
  whether or not there is a lockfile; the reproducible \<open>npm ci\<close>, which cannot
  install without a lockfile, is not configured and there is no fallback between the
  two.  A failed install is fatal: only the base stage is built, none of deps, dev,
  build and prod.  When the install succeeds, the stages built are all five, or base,
  deps and dev when the sources do not build.  What the build prints for the stage
  does not depend on the lockfile.
\<close>

theorem C8_install_fixed_and_fatal:
  "map_option runs (find_stage dockerfile ''deps'') = Some [[''npm'', ''install'']]
   \<and> cmd_ok env [''npm'', ''install''] = registry_up env
   \<and> cmd_ok env [''npm'', ''ci''] = (lockfile env \<and> registry_up env)
   \<and> map_option (transcript env) (find_stage dockerfile ''deps'') = Some [[''npm'', ''install'']]
   \<and> docker_build env dockerfile =
       (if registry_up env
        then (if sources_ok env then [''base'', ''deps'', ''dev'', ''build'', ''prod'']
              else [''base'', ''deps'', ''dev''])
        else [''base''])"
  by (simp add: docker_build_dockerfile deps_stage transcript_def runs_def cmd_ok_def)

theorem C8_install_fixed_and_fatal_witness:
  "\<not> registry_up (no_lockfile_env\<lparr>registry_up := False\<rparr>)
   \<and> map_option (transcript (no_lockfile_env\<lparr>registry_up := False\<rparr>))
        (find_stage dockerfile ''deps'') = Some [[''npm'', ''install'']]
   \<and> docker_build (no_lockfile_env\<lparr>registry_up := False\<rparr>) dockerfile = [''base'']
   \<and> docker_build no_lockfile_env dockerfile = [''base'', ''deps'', ''dev'', ''build'', ''prod'']"
  using C8_install_fixed_and_fatal [of "no_lockfile_env\<lparr>registry_up := False\<rparr>"]
    C8_install_fixed_and_fatal [of no_lockfile_env]
  by (simp add: no_lockfile_env_def)


section \<open>Publishing to the hosting platform\<close>

lemma run_workflow_live:
  "live (fst (run_workflow fate art prev)) = prev
   \<or> live (fst (run_workflow fate art prev)) = Some (dist_files art)"
  by (simp add: run_workflow_def static_yml_def fresh_run_def split: outcome.splits)

lemma run_workflow_upload_fails:
  assumes "fate (UploadPagesArtifact ''dist'') = Fails k"
  shows "live (fst (run_workflow fate art prev)) = prev" and "\<not> snd (run_workflow fate art prev)"
  using assms
  by (simp_all add: run_workflow_def static_yml_def fresh_run_def split: outcome.splits)

lemma run_workflow_all_succeed:
  "run_workflow (\<lambda>s. Succeeds) art prev
     = (\<lparr>workspace = [(''dist'', dist_files art)], staged = Complete (dist_files art),
         live = Some (dist_files art)\<rparr>, True)"
  by (simp add: run_workflow_def static_yml_def fresh_run_def)

text \<open>
  Claim C5: the new bundle goes live only after the whole upload has succeeded.  When
  the upload fails, after however many files, the run fails and the deployment that
  was live before is still the live one; whatever fails in a run, what is live
  afterwards is either the previous deployment or the complete new tree, never a part
  of it; and a run that succeeds after the failed one publishes the complete tree.
\<close>

theorem C5_atomic_publish:
  assumes "fate (UploadPagesArtifact ''dist'') = Fails k"
  shows "live (fst (run_workflow fate art prev)) = prev
       \<and> \<not> snd (run_workflow fate art prev)
       \<and> (live (fst (run_workflow any_fate art prev)) = prev
            \<or> live (fst (run_workflow any_fate art prev)) = Some (dist_files art))
       \<and> run_workflow (\<lambda>s. Succeeds) art (live (fst (run_workflow fate art prev)))
            = (\<lparr>workspace = [(''dist'', dist_files art)], staged = Complete (dist_files art),
                live = Some (dist_files art)\<rparr>, True)"
  using run_workflow_upload_fails [of fate k art prev, OF assms]
    run_workflow_live [of any_fate art prev]
  by (simp only: run_workflow_all_succeed simp_thms)

theorem C5_atomic_publish_witness:
  "upload_breaks 1 (UploadPagesArtifact ''dist'') = Fails 1
   \<and> run_workflow (upload_breaks 1) shipped_artifact (Some (dist_files my_app_artifact))
       = (\<lparr>workspace = [(''dist'', dist_files shipped_artifact)],
           staged = Partial (take 1 (dist_files shipped_artifact)),
           live = Some (dist_files my_app_artifact)\<rparr>, False)
   \<and> live (fst (run_workflow (upload_breaks 1) shipped_artifact
                  (Some (dist_files my_app_artifact))))
       = Some (dist_files my_app_artifact)"
proof -
  have h: "upload_breaks 1 (UploadPagesArtifact ''dist'') = Fails 1"
    by (simp add: upload_breaks_def)
  have "run_workflow (upload_breaks 1) shipped_artifact (Some (dist_files my_app_artifact))
       = (\<lparr>workspace = [(''dist'', dist_files shipped_artifact)],
           staged = Partial (take 1 (dist_files shipped_artifact)),
           live = Some (dist_files my_app_artifact)\<rparr>, False)"
    by (simp add: run_workflow_def static_yml_def fresh_run_def upload_breaks_def)
  with h C5_atomic_publish [where fate = "upload_breaks 1" and k = 1
      and art = shipped_artifact and prev = "Some (dist_files my_app_artifact)"
      and any_fate = "upload_breaks 1", OF h]
  show ?thesis by simp
qed


section \<open>References of the built entry document\<close>







end
